theory Spec2Isabelle
  imports Complex_Main
begin

section \<open>The loan calculator of \<^verbatim>\<open>app.py\<close>\<close>

text \<open>
  \<^verbatim>\<open>app.py\<close> is a straight-line script: it reads the sidebar widgets, stops when the
  deposit covers the loan, converts the annual rate to a monthly rate, computes the level
  payment, runs the amortization loop, builds the data frame with its cumulative columns
  and derives the rounded display view.

  Python floats are modelled as \<^typ>\<open>real\<close>: every arithmetic operation is the exact one,
  and \<^verbatim>\<open>x ** y\<close> with a float exponent is \<^const>\<open>powr\<close>. The level payment and
  the loop are also given with every operation rounded to a double. Python integers are
  \<^typ>\<open>int\<close>. The script's variables keep their names.
\<close>

subsection \<open>Sidebar inputs\<close>

datatype compounding = Monthly | Quarterly | Annually

record inputs =
  principal :: real
  deposit :: real
  interest_rate :: real
  compounding :: compounding
  duration_years :: int
  extra_payment :: real
  inflation_adj :: bool
  inflation_rate :: real
  rounding :: bool
  show_amort :: bool
  show_graphs :: bool
  download_csv :: bool

text \<open>The ranges the widgets enforce (\<^verbatim>\<open>min_value\<close>, \<^verbatim>\<open>max_value\<close>).\<close>

definition widget_ranges :: "inputs \<Rightarrow> bool" where
  "widget_ranges inp =
     (0 \<le> principal inp \<and> 0 \<le> deposit inp
      \<and> 0 \<le> interest_rate inp \<and> interest_rate inp \<le> 25
      \<and> 1 \<le> duration_years inp \<and> duration_years inp \<le> 50
      \<and> 0 \<le> extra_payment inp
      \<and> 0 \<le> inflation_rate inp \<and> inflation_rate inp \<le> 15)"

definition effective_principal :: "inputs \<Rightarrow> real" where
  "effective_principal inp = max 0 (principal inp - deposit inp)"

subsection \<open>Errors\<close>

text \<open>
  \<open>Stopped msg\<close> is \<^verbatim>\<open>st.error(msg); st.stop()\<close>; the other two are the Python
  exceptions the calculations can raise.
\<close>

datatype error = Stopped string | ZeroDivisionError | KeyError string

definition deposit_covers_msg :: string where
  "deposit_covers_msg = ''Deposit covers the loan amount. Adjust deposit or principal.''"

subsection \<open>Rate conversion\<close>

fun freq_map :: "compounding \<Rightarrow> int" where
  "freq_map Monthly = 12"
| "freq_map Quarterly = 4"
| "freq_map Annually = 1"

definition total_months :: "int \<Rightarrow> int" where
  "total_months dy = dy * 12"

definition annual_rate :: "real \<Rightarrow> real" where
  "annual_rate ir = ir / 100"

text \<open>
  Python's \<^verbatim>\<open>**\<close> is right-associative and binds tighter than the binary minus, so
  \<^verbatim>\<open>(1 + annual_rate) ** (1/4) ** (1/3) - 1\<close> is
  \<^verbatim>\<open>((1 + annual_rate) ** ((1/4) ** (1/3))) - 1\<close>. The slider keeps
  \<^verbatim>\<open>interest_rate\<close> at or above 0, so the base of the power is at least 1; a negative
  base, for which Python returns a complex number, lies outside the model.
\<close>

fun monthly_rate :: "compounding \<Rightarrow> real \<Rightarrow> real" where
  "monthly_rate Monthly a = (1 + a) powr (1/12) - 1"
| "monthly_rate Quarterly a = (1 + a) powr ((1/4) powr (1/3)) - 1"
| "monthly_rate Annually a = (1 + a) powr (1/12) - 1"

subsection \<open>Level payment\<close>

text \<open>
  \<^verbatim>\<open>(1 + r) ** n\<close> has an integer exponent (\<^const>\<open>power_int\<close>). A float division by
  zero raises \<^verbatim>\<open>ZeroDivisionError\<close>, and so does \<^verbatim>\<open>0.0 ** n\<close> for a negative \<open>n\<close>.
\<close>

definition monthly_payment :: "real \<Rightarrow> real \<Rightarrow> int \<Rightarrow> error + real" where
  "monthly_payment P r n =
     (if n = 0 then Inr 0
      else if r = 0 then Inr (P / of_int n)
      else if 1 + r = 0 \<and> n < 0 then Inl ZeroDivisionError
      else if (1 + r) powi n - 1 = 0 then Inl ZeroDivisionError
      else Inr (P * (r * (1 + r) powi n) / ((1 + r) powi n - 1)))"

subsection \<open>The amortization loop\<close>

record row =
  Month :: int
  Payment :: real
  Principal :: real
  Interest :: real
  Balance :: real

record loop_state =
  balance :: real
  total_interest_paid :: real
  total_principal_paid :: real
  schedule_rows :: "row list"

text \<open>One pass through the body of \<^verbatim>\<open>for m in range(1, total_months + 1)\<close>, up to the
  \<^verbatim>\<open>append\<close>.\<close>

definition loop_body :: "real \<Rightarrow> real \<Rightarrow> int \<Rightarrow> loop_state \<Rightarrow> loop_state" where
  "loop_body monthly_rate_float monthly_payment_with_extra m st =
     (let interest0 = balance st * monthly_rate_float;
          principal_paid0 = min (balance st) (monthly_payment_with_extra - interest0);
          principal_paid = (if monthly_rate_float = 0
                            then min (balance st) monthly_payment_with_extra
                            else principal_paid0);
          interest = (if monthly_rate_float = 0 then 0 else interest0);
          balance' = balance st - principal_paid
      in \<lparr>balance = balance',
          total_interest_paid = total_interest_paid st + interest,
          total_principal_paid = total_principal_paid st + principal_paid,
          schedule_rows = schedule_rows st @
            [\<lparr>Month = m,
              Payment = (if balance' > 0 then monthly_payment_with_extra
                         else principal_paid + interest),
              Principal = principal_paid,
              Interest = interest,
              Balance = max 0 balance'\<rparr>]\<rparr>)"

text \<open>The loop over the months still to come; \<^verbatim>\<open>break\<close> returns the state at once.\<close>

fun amortization_loop :: "real \<Rightarrow> real \<Rightarrow> int list \<Rightarrow> loop_state \<Rightarrow> loop_state" where
  "amortization_loop r Pe [] st = st"
| "amortization_loop r Pe (m # ms) st =
     (let st' = loop_body r Pe m st
      in if balance st' \<le> 0.0001 then st' else amortization_loop r Pe ms st')"

text \<open>\<^verbatim>\<open>range(a, b)\<close>.\<close>

definition py_range :: "int \<Rightarrow> int \<Rightarrow> int list" where
  "py_range a b = [a..b - 1]"

definition initial_state :: "real \<Rightarrow> loop_state" where
  "initial_state P0 =
     \<lparr>balance = P0, total_interest_paid = 0, total_principal_paid = 0, schedule_rows = []\<rparr>"

text \<open>Lines 126 to 148 as a function of the four values they read.\<close>

definition build_schedule :: "real \<Rightarrow> real \<Rightarrow> int \<Rightarrow> real \<Rightarrow> loop_state" where
  "build_schedule P0 r n Pe = amortization_loop r Pe (py_range 1 (n + 1)) (initial_state P0)"

subsection \<open>The data frame\<close>

text \<open>
  \<^verbatim>\<open>amort_df\<close> is the list of its rows. The column \<^verbatim>\<open>Balance (inflation adj)\<close>
  exists only when the inflation adjustment ran; a row holds \<open>None\<close> there otherwise.
\<close>

record df_row = row +
  Cumulative_Interest :: real
  Cumulative_Principal :: real
  Balance_inflation_adj :: "real option"

text \<open>\<^verbatim>\<open>Series.cumsum()\<close>: the running total, accumulated from the first row on.\<close>

fun cumsum_from :: "real \<Rightarrow> real list \<Rightarrow> real list" where
  "cumsum_from acc [] = []"
| "cumsum_from acc (x # xs) = (acc + x) # cumsum_from (acc + x) xs"

definition cumsum :: "real list \<Rightarrow> real list" where
  "cumsum xs = cumsum_from 0 xs"

definition with_cumulative :: "row \<times> real \<times> real \<Rightarrow> df_row" where
  "with_cumulative t =
     (case t of (rw, ci, cp) \<Rightarrow>
        \<lparr>Month = Month rw, Payment = Payment rw, Principal = Principal rw,
         Interest = Interest rw, Balance = Balance rw,
         Cumulative_Interest = ci, Cumulative_Principal = cp,
         Balance_inflation_adj = None\<rparr>)"

text \<open>
  Lines 150 to 152. \<^verbatim>\<open>pd.DataFrame([])\<close> has no columns, so \<^verbatim>\<open>amort_df['Interest']\<close>
  raises \<^verbatim>\<open>KeyError\<close> on an empty schedule.
\<close>

definition cumulative_columns :: "row list \<Rightarrow> error + df_row list" where
  "cumulative_columns rows =
     (if rows = [] then Inl (KeyError ''Interest'')
      else Inr (map with_cumulative
                  (zip rows (zip (cumsum (map Interest rows)) (cumsum (map Principal rows))))))"

text \<open>Lines 155 to 157; \<^verbatim>\<open>i/12\<close> is a float, so the power is \<^const>\<open>powr\<close>.\<close>

definition inflation_factor :: "real \<Rightarrow> int \<Rightarrow> real" where
  "inflation_factor infl i = (1 + infl / 100) powr (of_int i / 12)"

definition inflation_column :: "bool \<Rightarrow> real \<Rightarrow> df_row list \<Rightarrow> df_row list" where
  "inflation_column adj infl df =
     (if adj \<and> infl > 0
      then map (\<lambda>d. d\<lparr>Balance_inflation_adj := Some (Balance d / inflation_factor infl (Month d))\<rparr>) df
      else df)"

subsection \<open>The rounded display view\<close>

text \<open>
  \<^verbatim>\<open>DataFrame.round(2)\<close> rounds every float column to two decimals, halves to the even
  neighbour, and leaves the integer column \<^verbatim>\<open>Month\<close> as it is. It returns a new frame.
\<close>

definition rint :: "real \<Rightarrow> int" where
  "rint x =
     (let f = \<lfloor>x\<rfloor>; d = x - of_int f
      in if d < 1/2 then f else if 1/2 < d then f + 1 else if even f then f else f + 1)"

definition np_round :: "nat \<Rightarrow> real \<Rightarrow> real" where
  "np_round k x = of_int (rint (x * 10 ^ k)) / 10 ^ k"

definition round_row :: "nat \<Rightarrow> df_row \<Rightarrow> df_row" where
  "round_row k d =
     \<lparr>Month = Month d, Payment = np_round k (Payment d), Principal = np_round k (Principal d),
      Interest = np_round k (Interest d), Balance = np_round k (Balance d),
      Cumulative_Interest = np_round k (Cumulative_Interest d),
      Cumulative_Principal = np_round k (Cumulative_Principal d),
      Balance_inflation_adj = map_option (np_round k) (Balance_inflation_adj d)\<rparr>"

definition round_df :: "nat \<Rightarrow> df_row list \<Rightarrow> df_row list" where
  "round_df k df = map (round_row k) df"

definition display_view :: "bool \<Rightarrow> df_row list \<Rightarrow> df_row list" where
  "display_view rnd df = (if rnd then round_df 2 df else df)"

subsection \<open>The payment and the loop in double arithmetic\<close>

text \<open>
  Whether a level payment pays the loan off within 0.0001 is decided by rounding, so for
  that question the payment formula and the loop are given a second time, as Python
  computes them on doubles.
\<close>






subsection \<open>The script\<close>

record outputs =
  base_monthly_payment :: real
  monthly_payment_with_extra :: real
  total_interest :: real
  total_principal :: real
  months_to_finish :: nat
  amort_df :: "df_row list"
  display_df :: "df_row list"
  csv :: "df_row list option"
  table :: "df_row list option"
  balance_chart :: "(int \<times> real) list option"

text \<open>
  Lines 102 to 208, run once \<^verbatim>\<open>periods_per_year\<close> is assigned. The metrics are the
  values they print; the CSV download carries \<^verbatim>\<open>amort_df\<close>, the table shows
  \<^verbatim>\<open>display_df\<close>, and the first chart plots \<^verbatim>\<open>Balance\<close> against \<^verbatim>\<open>Month\<close>.
  The two other charts and the sensitivity quotes (lines 201 to 229) only read these
  values and are left out.
\<close>

definition calculations :: "inputs \<Rightarrow> int \<Rightarrow> error + outputs" where
  "calculations inp periods_per_year =
     (let monthly_rate_float = monthly_rate (compounding inp) (annual_rate (interest_rate inp))
      in case monthly_payment (effective_principal inp) monthly_rate_float
                (total_months (duration_years inp)) of
           Inl e \<Rightarrow> Inl e
         | Inr base \<Rightarrow>
             (let with_extra = base + extra_payment inp;
                  st = build_schedule (effective_principal inp) monthly_rate_float
                         (total_months (duration_years inp)) with_extra
              in case cumulative_columns (schedule_rows st) of
                   Inl e \<Rightarrow> Inl e
                 | Inr df0 \<Rightarrow>
                     (let df = inflation_column (inflation_adj inp) (inflation_rate inp) df0;
                          shown = display_view (rounding inp) df
                      in Inr \<lparr>base_monthly_payment = base,
                              monthly_payment_with_extra = with_extra,
                              total_interest = total_interest_paid st,
                              total_principal = total_principal_paid st,
                              months_to_finish = length df,
                              amort_df = df,
                              display_df = shown,
                              csv = (if download_csv inp \<and> df \<noteq> [] then Some df else None),
                              table = (if show_amort inp then Some shown else None),
                              balance_chart =
                                (if show_graphs inp
                                 then Some (zip (map Month df) (map Balance df))
                                 else None)\<rparr>)))"

text \<open>Lines 94 to 101, then the calculations.\<close>

definition run :: "inputs \<Rightarrow> error + outputs" where
  "run inp =
     (if effective_principal inp \<le> 0 then Inl (Stopped deposit_covers_msg)
      else calculations inp (freq_map (compounding inp)))"

subsection \<open>The loop seen from one balance\<close>

text \<open>
  Three readings of the loop above, used in the proofs: the balance after one pass, the
  row one pass appends, and the rows the loop appends when it starts from a balance.
\<close>

definition next_balance :: "real \<Rightarrow> real \<Rightarrow> real \<Rightarrow> real" where
  "next_balance r Pe B = balance (loop_body r Pe 0 (initial_state B))"

definition period_row :: "real \<Rightarrow> real \<Rightarrow> int \<Rightarrow> real \<Rightarrow> row" where
  "period_row r Pe m B = last (schedule_rows (loop_body r Pe m (initial_state B)))"

definition loop_rows :: "real \<Rightarrow> real \<Rightarrow> int list \<Rightarrow> real \<Rightarrow> row list" where
  "loop_rows r Pe ms B = schedule_rows (amortization_loop r Pe ms (initial_state B))"

subsection \<open>A worked example\<close>

text \<open>
  A loan of 1000 at a zero rate over one year with 250 extra each month: the payment is
  1000/3 and the loan is paid off in the third month. The outputs are given for both
  settings of the rounding checkbox.
\<close>

definition example_inputs :: inputs where
  "example_inputs =
     \<lparr>principal = 1000, deposit = 0, interest_rate = 0, compounding = Monthly,
      duration_years = 1, extra_payment = 250, inflation_adj = False, inflation_rate = 2,
      rounding = True, show_amort = True, show_graphs = True, download_csv = True\<rparr>"

definition example_df :: "df_row list" where
  "example_df =
     [\<lparr>Month = 1, Payment = 1000/3, Principal = 1000/3, Interest = 0, Balance = 2000/3,
       Cumulative_Interest = 0, Cumulative_Principal = 1000/3, Balance_inflation_adj = None\<rparr>,
      \<lparr>Month = 2, Payment = 1000/3, Principal = 1000/3, Interest = 0, Balance = 1000/3,
       Cumulative_Interest = 0, Cumulative_Principal = 2000/3, Balance_inflation_adj = None\<rparr>,
      \<lparr>Month = 3, Payment = 1000/3, Principal = 1000/3, Interest = 0, Balance = 0,
       Cumulative_Interest = 0, Cumulative_Principal = 1000, Balance_inflation_adj = None\<rparr>]"

definition example_display :: "df_row list" where
  "example_display =
     [\<lparr>Month = 1, Payment = 333.33, Principal = 333.33, Interest = 0, Balance = 666.67,
       Cumulative_Interest = 0, Cumulative_Principal = 333.33, Balance_inflation_adj = None\<rparr>,
      \<lparr>Month = 2, Payment = 333.33, Principal = 333.33, Interest = 0, Balance = 333.33,
       Cumulative_Interest = 0, Cumulative_Principal = 666.67, Balance_inflation_adj = None\<rparr>,
      \<lparr>Month = 3, Payment = 333.33, Principal = 333.33, Interest = 0, Balance = 0,
       Cumulative_Interest = 0, Cumulative_Principal = 1000, Balance_inflation_adj = None\<rparr>]"

definition example_outputs :: "bool \<Rightarrow> outputs" where
  "example_outputs rnd =
     \<lparr>base_monthly_payment = 250/3, monthly_payment_with_extra = 1000/3,
      total_interest = 0, total_principal = 1000, months_to_finish = 3,
      amort_df = example_df,
      display_df = (if rnd then example_display else example_df),
      csv = Some example_df,
      table = Some (if rnd then example_display else example_df),
      balance_chart = Some [(1, 2000/3), (2, 1000/3), (3, 0)]\<rparr>"

section \<open>The loop, one pass at a time\<close>


lemma balance_loop_body: "balance (loop_body r Pe m st) = next_balance r Pe (balance st)"
  by (simp add: next_balance_def loop_body_def initial_state_def Let_def)

lemma rows_loop_body:
  "schedule_rows (loop_body r Pe m st) = schedule_rows st @ [period_row r Pe m (balance st)]"
  by (simp add: period_row_def loop_body_def initial_state_def Let_def)

lemma Balance_period_row: "Balance (period_row r Pe m B) = next_balance r Pe B"
  by (simp add: period_row_def next_balance_def loop_body_def initial_state_def Let_def min_def max_def algebra_simps)

lemma Month_period_row: "Month (period_row r Pe m B) = m"
  by (simp add: period_row_def loop_body_def initial_state_def Let_def)

lemma Interest_period_row: "Interest (period_row r Pe m B) = B * r"
  by (simp add: period_row_def loop_body_def initial_state_def Let_def)

lemma Principal_period_row: "Principal (period_row r Pe m B) = B - next_balance r Pe B"
  by (simp add: period_row_def next_balance_def loop_body_def initial_state_def Let_def)

lemma loop_from_state:
  "schedule_rows (amortization_loop r Pe ms st) = schedule_rows st @ loop_rows r Pe ms (balance st)
   \<and> balance (amortization_loop r Pe ms st) = balance (amortization_loop r Pe ms (initial_state (balance st)))"
proof (induction ms arbitrary: st)
  case Nil
  show ?case by (simp add: loop_rows_def initial_state_def)
next
  case (Cons m ms)
  let ?B = "balance st"
  let ?st' = "loop_body r Pe m st"
  let ?st0 = "loop_body r Pe m (initial_state ?B)"
  have b0: "balance (initial_state ?B) = ?B" by (simp add: initial_state_def)
  have r0: "schedule_rows (initial_state ?B) = []" by (simp add: initial_state_def)
  have bal: "balance ?st0 = balance ?st'" by (simp add: balance_loop_body b0)
  have rows0: "schedule_rows ?st0 = [period_row r Pe m ?B]" by (simp add: rows_loop_body b0 r0)
  show ?case
  proof (cases "balance ?st' \<le> 0.0001")
    case True
    then show ?thesis using bal rows0
      by (simp add: loop_rows_def Let_def rows_loop_body)
  next
    case False
    have "schedule_rows (amortization_loop r Pe ms ?st') = schedule_rows ?st' @ loop_rows r Pe ms (balance ?st')"
      using Cons.IH[of ?st'] by simp
    moreover have "schedule_rows (amortization_loop r Pe ms ?st0) = schedule_rows ?st0 @ loop_rows r Pe ms (balance ?st0)"
      using Cons.IH[of ?st0] by simp
    moreover have "balance (amortization_loop r Pe ms ?st') = balance (amortization_loop r Pe ms ?st0)"
      using Cons.IH[of ?st'] Cons.IH[of ?st0] bal by simp
    ultimately show ?thesis using False bal rows0
      by (simp add: loop_rows_def Let_def rows_loop_body)
  qed
qed

lemma loop_rows_Nil: "loop_rows r Pe [] B = []"
  by (simp add: loop_rows_def initial_state_def)

lemma loop_rows_Cons:
  "loop_rows r Pe (m # ms) B =
     period_row r Pe m B #
       (if next_balance r Pe B \<le> 0.0001 then [] else loop_rows r Pe ms (next_balance r Pe B))"
proof -
  let ?st0 = "loop_body r Pe m (initial_state B)"
  have b: "balance ?st0 = next_balance r Pe B" by (simp add: balance_loop_body initial_state_def)
  have rw: "schedule_rows ?st0 = [period_row r Pe m B]" by (simp add: rows_loop_body initial_state_def)
  show ?thesis
    using loop_from_state[of r Pe ms ?st0] b rw
    by (simp add: loop_rows_def Let_def)
qed

lemma build_schedule_rows: "schedule_rows (build_schedule P0 r n Pe) = loop_rows r Pe [1..n] P0"
  by (simp add: build_schedule_def loop_rows_def py_range_def)

section \<open>Properties of the appended rows\<close>


lemma length_loop_rows: "length (loop_rows r Pe ms B) \<le> length ms"
  by (induction ms arbitrary: B) (simp_all add: loop_rows_Nil loop_rows_Cons)

lemma loop_rows_nonempty: "ms \<noteq> [] \<Longrightarrow> loop_rows r Pe ms B \<noteq> []"
  by (cases ms) (simp_all add: loop_rows_Cons)


lemma Month_loop_rows: "map Month (loop_rows r Pe ms B) = take (length (loop_rows r Pe ms B)) ms"
  by (induction ms arbitrary: B) (simp_all add: loop_rows_Nil loop_rows_Cons Month_period_row)

lemma nonlast_above_eps:
  "Suc i < length (loop_rows r Pe ms B) \<Longrightarrow> 0.0001 < Balance (loop_rows r Pe ms B ! i)"
proof (induction ms arbitrary: B i)
  case Nil
  then show ?case by (simp add: loop_rows_Nil)
next
  case (Cons m ms)
  show ?case
  proof (cases "next_balance r Pe B \<le> 0.0001")
    case True
    with Cons.prems show ?thesis by (simp add: loop_rows_Cons)
  next
    case False
    show ?thesis
    proof (cases i)
      case 0
      with False show ?thesis by (simp add: loop_rows_Cons Balance_period_row)
    next
      case (Suc j)
      with Cons.prems False have "Suc j < length (loop_rows r Pe ms (next_balance r Pe B))"
        by (simp add: loop_rows_Cons)
      from Cons.IH[OF this] Suc False show ?thesis by (simp add: loop_rows_Cons)
    qed
  qed
qed

lemma early_stop_below_eps:
  "length (loop_rows r Pe ms B) < length ms \<Longrightarrow> Balance (last (loop_rows r Pe ms B)) \<le> 0.0001"
proof (induction ms arbitrary: B)
  case Nil
  then show ?case by simp
next
  case (Cons m ms)
  show ?case
  proof (cases "next_balance r Pe B \<le> 0.0001")
    case True
    then show ?thesis by (simp add: loop_rows_Cons Balance_period_row)
  next
    case False
    with Cons.prems have lt: "length (loop_rows r Pe ms (next_balance r Pe B)) < length ms"
      by (simp add: loop_rows_Cons)
    then have "ms \<noteq> []" by auto
    then have "loop_rows r Pe ms (next_balance r Pe B) \<noteq> []" by (rule loop_rows_nonempty)
    with Cons.IH[OF lt] False show ?thesis by (simp add: loop_rows_Cons)
  qed
qed




section \<open>Underpayment and payoff\<close>






text \<open>The level payment for a positive rate and a positive number of months.\<close>

lemma monthly_payment_pos_rate:
  assumes "0 < r" "0 < n"
  shows "monthly_payment P r n = Inr (P * (r * (1 + r) ^ nat n) / ((1 + r) ^ nat n - 1))"
    and "1 < (1 + r) ^ nat n"
proof -
  have n: "0 < nat n" using assms(2) by simp
  show gt: "1 < (1 + r) ^ nat n" using assms(1) n by (simp add: one_less_power)
  have "(1 + r) powi n = (1 + r) ^ nat n" using assms(2) by (simp add: power_int_def)
  moreover have "(1 + r) ^ nat n \<noteq> 1" using gt by simp
  ultimately show "monthly_payment P r n = Inr (P * (r * (1 + r) ^ nat n) / ((1 + r) ^ nat n - 1))"
    using assms by (simp add: monthly_payment_def)
qed

lemma length_months: "length [1..n] = nat n"
  by simp


lemma final_balance_last_row:
  "ms \<noteq> [] \<Longrightarrow>
   balance (amortization_loop r Pe ms (initial_state B)) = Balance (last (loop_rows r Pe ms B))"
proof (induction ms arbitrary: B)
  case Nil
  then show ?case by simp
next
  case (Cons m ms)
  let ?B' = "next_balance r Pe B"
  let ?st0 = "loop_body r Pe m (initial_state B)"
  have b: "balance ?st0 = ?B'" by (simp add: balance_loop_body initial_state_def)
  show ?case
  proof (cases "?B' \<le> 0.0001")
    case True
    then show ?thesis using b by (simp add: loop_rows_Cons Balance_period_row Let_def)
  next
    case False
    have eq: "balance (amortization_loop r Pe ms ?st0) = balance (amortization_loop r Pe ms (initial_state ?B'))"
      using loop_from_state[of r Pe ms ?st0] b by simp
    show ?thesis
    proof (cases "ms = []")
      case True
      then show ?thesis using b False by (simp add: loop_rows_Cons loop_rows_Nil Balance_period_row Let_def)
    next
      case ne: False
      then have "loop_rows r Pe ms ?B' \<noteq> []" by (rule loop_rows_nonempty)
      with Cons.IH[OF ne, of ?B'] eq b False show ?thesis
        by (simp add: loop_rows_Cons Let_def)
    qed
  qed
qed

subsection \<open>Schedules worked out\<close>

lemma half_payment_schedule:
  "schedule_rows (build_schedule 1200 0 12 600) =
     [\<lparr>Month = 1, Payment = 600, Principal = 600, Interest = 0, Balance = 600\<rparr>,
      \<lparr>Month = 2, Payment = 600, Principal = 600, Interest = 0, Balance = 0\<rparr>]"
  by (simp add: build_schedule_def py_range_def initial_state_def loop_body_def Let_def upto_rec1)


lemma cumulative_columns_nonempty:
  "rows \<noteq> [] \<Longrightarrow> \<exists>df. cumulative_columns rows = Inr df \<and> length df = length rows"
proof -
  have len: "length (cumsum_from acc xs) = length xs" for acc xs
    by (induction xs arbitrary: acc) simp_all
  assume "rows \<noteq> []"
  then show ?thesis by (simp add: cumulative_columns_def cumsum_def len)
qed



section \<open>The data frame and the script\<close>

lemma length_cumsum_from: "length (cumsum_from acc xs) = length xs"
  by (induction xs arbitrary: acc) simp_all

lemma cumsum_from_nth:
  "i < length xs \<Longrightarrow> cumsum_from acc xs ! i = acc + sum_list (take (Suc i) xs)"
proof (induction xs arbitrary: acc i)
  case Nil
  then show ?case by simp
next
  case (Cons x xs)
  show ?case
  proof (cases i)
    case 0
    then show ?thesis by simp
  next
    case (Suc j)
    with Cons.prems have "j < length xs" by simp
    from Cons.IH[OF this, of "acc + x"] Suc show ?thesis by (simp add: add.assoc)
  qed
qed

lemma cumsum_nth: "i < length xs \<Longrightarrow> cumsum xs ! i = sum_list (take (Suc i) xs)"
  by (simp add: cumsum_def cumsum_from_nth)

lemma length_cumsum: "length (cumsum xs) = length xs"
  by (simp add: cumsum_def length_cumsum_from)

lemma cumulative_columns_Inr:
  assumes "cumulative_columns rows = Inr df"
  shows "length df = length rows"
    and "map Month df = map Month rows"
    and "map Balance df = map Balance rows"
    and "map Interest df = map Interest rows"
    and "map Principal df = map Principal rows"
    and "i < length df \<Longrightarrow> Cumulative_Interest (df ! i) = sum_list (take (Suc i) (map Interest rows))"
    and "i < length df \<Longrightarrow> Cumulative_Principal (df ! i) = sum_list (take (Suc i) (map Principal rows))"
proof -
  let ?ci = "cumsum (map Interest rows)"
  let ?cp = "cumsum (map Principal rows)"
  from assms have df: "df = map with_cumulative (zip rows (zip ?ci ?cp))"
    by (simp add: cumulative_columns_def split: if_splits)
  show len: "length df = length rows" by (simp add: df length_cumsum)
  have nth: "df ! j = with_cumulative (rows ! j, ?ci ! j, ?cp ! j)" if "j < length rows" for j
    using that by (simp add: df length_cumsum)
  show "map Month df = map Month rows"
    by (rule nth_equalityI) (simp_all add: len nth with_cumulative_def)
  show "map Balance df = map Balance rows"
    by (rule nth_equalityI) (simp_all add: len nth with_cumulative_def)
  show "map Interest df = map Interest rows"
    by (rule nth_equalityI) (simp_all add: len nth with_cumulative_def)
  show "map Principal df = map Principal rows"
    by (rule nth_equalityI) (simp_all add: len nth with_cumulative_def)
  show "Cumulative_Interest (df ! i) = sum_list (take (Suc i) (map Interest rows))" if "i < length df"
    using that by (simp add: len nth with_cumulative_def cumsum_nth)
  show "Cumulative_Principal (df ! i) = sum_list (take (Suc i) (map Principal rows))" if "i < length df"
    using that by (simp add: len nth with_cumulative_def cumsum_nth)
qed

lemma inflation_column_keeps:
  "length (inflation_column adj infl df) = length df"
  "map Month (inflation_column adj infl df) = map Month df"
  "map Balance (inflation_column adj infl df) = map Balance df"
  "map Interest (inflation_column adj infl df) = map Interest df"
  "map Principal (inflation_column adj infl df) = map Principal df"
  "map Cumulative_Interest (inflation_column adj infl df) = map Cumulative_Interest df"
  "map Cumulative_Principal (inflation_column adj infl df) = map Cumulative_Principal df"
  by (simp_all add: inflation_column_def)

lemma run_Inr:
  assumes "run inp = Inr out"
  obtains df0 where
    "0 < effective_principal inp"
    "monthly_payment (effective_principal inp)
       (monthly_rate (compounding inp) (annual_rate (interest_rate inp)))
       (total_months (duration_years inp)) = Inr (base_monthly_payment out)"
    "cumulative_columns (schedule_rows (build_schedule (effective_principal inp)
       (monthly_rate (compounding inp) (annual_rate (interest_rate inp)))
       (total_months (duration_years inp))
       (base_monthly_payment out + extra_payment inp))) = Inr df0"
    "amort_df out = inflation_column (inflation_adj inp) (inflation_rate inp) df0"
    "display_df out = display_view (rounding inp) (amort_df out)"
    "monthly_payment_with_extra out = base_monthly_payment out + extra_payment inp"
  using assms
  by (auto simp: run_def calculations_def Let_def split: if_splits sum.splits)

lemma monthly_rate_zero: "monthly_rate c (annual_rate 0) = 0"
  by (cases c) (simp_all add: annual_rate_def)

lemma example_schedule:
  "build_schedule 1000 0 12 (1000/3) =
     \<lparr>balance = 0, total_interest_paid = 0, total_principal_paid = 1000,
      schedule_rows =
       [\<lparr>Month = 1, Payment = 1000/3, Principal = 1000/3, Interest = 0, Balance = 2000/3\<rparr>,
        \<lparr>Month = 2, Payment = 1000/3, Principal = 1000/3, Interest = 0, Balance = 1000/3\<rparr>,
        \<lparr>Month = 3, Payment = 1000/3, Principal = 1000/3, Interest = 0, Balance = 0\<rparr>]\<rparr>"
  by (simp add: build_schedule_def py_range_def initial_state_def loop_body_def Let_def upto_rec1)

lemma example_rounding: "round_df 2 example_df = example_display"
  by (simp add: round_df_def round_row_def np_round_def rint_def example_df_def example_display_def Let_def)

lemma example_df_facts:
  "example_df \<noteq> []" "length example_df = 3"
  "zip (map Month example_df) (map Balance example_df) = [(1, 2000 / 3), (2, 1000 / 3), (3, 0)]"
  by (simp_all add: example_df_def)

lemma run_example: "run (example_inputs\<lparr>rounding := rnd\<rparr>) = Inr (example_outputs rnd)"
  by (simp add: example_df_facts run_def calculations_def example_inputs_def effective_principal_def
      monthly_rate_zero total_months_def monthly_payment_def Let_def example_schedule
      cumulative_columns_def cumsum_def with_cumulative_def inflation_column_def
      display_view_def example_rounding example_outputs_def example_df_def[symmetric])

lemma run_example_inputs: "run example_inputs = Inr (example_outputs True)"
  using run_example[of True] by (simp add: example_inputs_def)

lemma rint_close: "\<bar>of_int (rint y) - y\<bar> \<le> 1/2"
proof -
  have "of_int \<lfloor>y\<rfloor> \<le> y" "y < of_int \<lfloor>y\<rfloor> + 1" by linarith+
  then show ?thesis by (auto simp: rint_def Let_def)
qed

lemma np_round_two:
  "\<exists>k::int. np_round 2 x = of_int k / 100" "\<bar>np_round 2 x - x\<bar> \<le> 1/200"
proof -
  show "\<exists>k::int. np_round 2 x = of_int k / 100" by (simp add: np_round_def)
  have "\<bar>of_int (rint (x * 100)) - x * 100\<bar> \<le> 1/2" by (rule rint_close)
  then show "\<bar>np_round 2 x - x\<bar> \<le> 1/200" by (simp add: np_round_def field_simps)
qed

lemma monthly_rate_nonneg: "0 \<le> a \<Longrightarrow> 0 \<le> monthly_rate c a"
proof -
  assume a: "0 \<le> a"
  have "1 \<le> (1 + a) powr e" if "0 \<le> e" for e
    using a that by (intro ge_one_powr_ge_zero) simp_all
  from this[of "1/12"] this[of "(1/4) powr (1/3)"] show ?thesis
    by (cases c) simp_all
qed

lemma monthly_payment_nonneg_rate:
  assumes "0 \<le> r" "0 < n"
  shows "\<exists>p. monthly_payment P r n = Inr p"
proof (cases "r = 0")
  case True
  then show ?thesis using assms(2) by (simp add: monthly_payment_def)
next
  case False
  with assms(1) have "0 < r" by simp
  from monthly_payment_pos_rate(1)[OF this assms(2)] show ?thesis by blast
qed

lemma run_succeeds:
  assumes ep: "0 < effective_principal inp" and w: "widget_ranges inp"
  shows "\<exists>out. run inp = Inr out \<and> amort_df out \<noteq> []"
proof -
  let ?r = "monthly_rate (compounding inp) (annual_rate (interest_rate inp))"
  let ?n = "total_months (duration_years inp)"
  have r: "0 \<le> ?r" using w by (intro monthly_rate_nonneg) (simp add: widget_ranges_def annual_rate_def)
  have n: "0 < ?n" using w by (simp add: widget_ranges_def total_months_def)
  obtain p where p: "monthly_payment (effective_principal inp) ?r ?n = Inr p"
    using monthly_payment_nonneg_rate[OF r n] by blast
  let ?rows = "schedule_rows (build_schedule (effective_principal inp) ?r ?n (p + extra_payment inp))"
  have "[1..?n] \<noteq> []" using n by simp
  then have "?rows \<noteq> []" unfolding build_schedule_rows by (rule loop_rows_nonempty)
  then obtain df where df: "cumulative_columns ?rows = Inr df" "length df = length ?rows"
    using cumulative_columns_nonempty by blast
  with \<open>?rows \<noteq> []\<close> have "df \<noteq> []" by auto
  then have "inflation_column (inflation_adj inp) (inflation_rate inp) df \<noteq> []"
    using inflation_column_keeps(1)[of "inflation_adj inp" "inflation_rate inp" df] by auto
  then show ?thesis using ep p df(1)
    by (simp add: run_def calculations_def Let_def)
qed

lemma run_never_other_stop: "0 < effective_principal inp \<Longrightarrow> run inp \<noteq> Inl (Stopped msg)"
  by (auto simp: run_def calculations_def monthly_payment_def cumulative_columns_def Let_def
      split: sum.splits if_splits)

lemma take_months: "k \<le> nat n \<Longrightarrow> take k [1..n] = [1..int k]"
  by (rule nth_equalityI) auto

lemma quarterly_exponent: "1/2 < (1/4::real) powr (1/3)" "(1/4::real) powr (1/3) < 1"
proof -
  have "((1/2::real) powr 3) powr (1/3) = (1/2) powr (3 * (1/3))" by (rule powr_powr)
  then have "((1/2::real) powr 3) powr (1/3) = 1/2" by simp
  moreover have "(1/2::real) powr 3 = 1/8" by (simp add: power3_eq_cube)
  ultimately have cube: "(1/8::real) powr (1/3) = 1/2" by simp
  have "(1/8::real) powr (1/3) < (1/4) powr (1/3)"
    by (rule powr_less_mono2) simp_all
  with cube show "1/2 < (1/4::real) powr (1/3)" by simp
  have "(1/4::real) powr (1/3) < 1 powr (1/3)"
    by (rule powr_less_mono2) simp_all
  then show "(1/4::real) powr (1/3) < 1" by simp
qed



section \<open>Double arithmetic\<close>























section \<open>The claims\<close>

text \<open>
  C1, as stated, fails: at an annual rate of 7.5 percent the quarterly branch returns a
  rate \<open>r\<close> with \<open>(1 + r) ^ 12 > 1.075 ^ 6\<close>, while \<open>(1 + a/4) ^ 4\<close> is below that.
\<close>

theorem quarterly_rate_counterexample:
  "(0::real) \<le> 7.5
   \<and> (1 + monthly_rate Quarterly (annual_rate 7.5)) ^ 12 \<noteq> (1 + annual_rate 7.5 / 4) ^ 4"
proof -
  let ?c = "(1/4::real) powr (1/3)"
  have "(1 + monthly_rate Quarterly (annual_rate 7.5)) ^ 12 = ((43/40::real) powr ?c) ^ 12"
    by (simp add: annual_rate_def)
  also have "\<dots> = ((43/40::real) powr ?c) powr (real 12)"
    by (subst powr_realpow) simp_all
  also have "\<dots> = (43/40::real) powr (?c * 12)" by (simp add: powr_powr)
  finally have lhs: "(1 + monthly_rate Quarterly (annual_rate 7.5)) ^ 12 = (43/40::real) powr (?c * 12)" .
  have "(43/40::real) powr (real 6) < (43/40) powr (?c * 12)"
    using quarterly_exponent(1) by (intro powr_less_mono) simp_all
  moreover have "(43/40::real) powr (real 6) = (43/40) ^ 6"
    by (rule powr_realpow) simp
  ultimately have big: "(43/40::real) ^ 6 < (43/40) powr (?c * 12)" by simp
  have "(1 + annual_rate 7.5 / 4) ^ 4 < (43/40::real) ^ 6"
    by (simp add: annual_rate_def power_divide)
  with big lhs show ?thesis by simp
qed

text \<open>
  C1, amended. The quarterly branch never divides the annual rate by four: it raises the
  annual growth factor \<open>1 + a\<close> to one fixed exponent \<open>e\<close> with \<open>0 < e < 1\<close> and
  subtracts 1. The rate is at least 0 for every annual rate of at least 0, and it is 0 at 0.
\<close>

theorem quarterly_rate_amended:
  "\<exists>e. 0 < e \<and> e < 1
       \<and> (\<forall>ir. 0 \<le> ir \<longrightarrow>
             monthly_rate Quarterly (annual_rate ir) = (1 + ir / 100) powr e - 1
             \<and> 0 \<le> monthly_rate Quarterly (annual_rate ir))
       \<and> monthly_rate Quarterly (annual_rate 0) = 0"
proof (intro exI[of _ "(1/4::real) powr (1/3)"] conjI allI impI)
  show "0 < (1/4::real) powr (1/3)" by simp
  show "(1/4::real) powr (1/3) < 1" by (rule quarterly_exponent)
  show "monthly_rate Quarterly (annual_rate ir) = (1 + ir / 100) powr ((1/4) powr (1/3)) - 1" for ir
    by (simp add: annual_rate_def)
  show "0 \<le> monthly_rate Quarterly (annual_rate ir)" if "0 \<le> ir" for ir
    using that by (intro monthly_rate_nonneg) (simp add: annual_rate_def)
  show "monthly_rate Quarterly (annual_rate 0) = 0" by (rule monthly_rate_zero)
qed

theorem quarterly_rate_amended_witness:
  "(0::real) \<le> 7.5 \<and> 0 \<le> monthly_rate Quarterly (annual_rate 7.5)
   \<and> monthly_rate Quarterly (annual_rate 0) = 0"
proof -
  from quarterly_rate_amended obtain e where
    "\<forall>ir. 0 \<le> ir \<longrightarrow>
             monthly_rate Quarterly (annual_rate ir) = (1 + ir / 100) powr e - 1
             \<and> 0 \<le> monthly_rate Quarterly (annual_rate ir)"
    and z: "monthly_rate Quarterly (annual_rate 0) = 0"
    by blast
  then have "(0::real) \<le> 7.5 \<longrightarrow> 0 \<le> monthly_rate Quarterly (annual_rate 7.5)" by blast
  with z show ?thesis by simp
qed







text \<open>
  C4. In every data frame the script produces, the cumulative interest of row \<open>i\<close> is
  the sum of the interest of rows \<open>0..i\<close>, and the cumulative principal of row \<open>i\<close> is
  the sum of the principal of rows \<open>0..i\<close>.
\<close>

theorem cumulative_sum_consistency:
  assumes "run inp = Inr out" "i < length (amort_df out)"
  shows "Cumulative_Interest (amort_df out ! i)
           = sum_list (map Interest (take (Suc i) (amort_df out)))
         \<and> Cumulative_Principal (amort_df out ! i)
           = sum_list (map Principal (take (Suc i) (amort_df out)))"
proof -
  from assms(1) obtain df0 where
    cc: "cumulative_columns (schedule_rows (build_schedule (effective_principal inp)
       (monthly_rate (compounding inp) (annual_rate (interest_rate inp)))
       (total_months (duration_years inp))
       (base_monthly_payment out + extra_payment inp))) = Inr df0"
    and df: "amort_df out = inflation_column (inflation_adj inp) (inflation_rate inp) df0"
    by (rule run_Inr)
  let ?df = "amort_df out"
  have i0: "i < length df0" using assms(2) df by (simp add: inflation_column_keeps)
  have "Cumulative_Interest (?df ! i) = map Cumulative_Interest ?df ! i"
    using assms(2) by simp
  also have "\<dots> = Cumulative_Interest (df0 ! i)"
    using i0 by (simp add: df inflation_column_keeps(6))
  also have "\<dots> = sum_list (take (Suc i) (map Interest df0))"
    using cumulative_columns_Inr(6)[OF cc i0] cumulative_columns_Inr(4)[OF cc] by simp
  also have "\<dots> = sum_list (map Interest (take (Suc i) ?df))"
    by (simp add: df inflation_column_keeps(4) take_map[symmetric] del: take_map)
  finally have ci: "Cumulative_Interest (?df ! i) = sum_list (map Interest (take (Suc i) ?df))" .
  have "Cumulative_Principal (?df ! i) = map Cumulative_Principal ?df ! i"
    using assms(2) by simp
  also have "\<dots> = Cumulative_Principal (df0 ! i)"
    using i0 by (simp add: df inflation_column_keeps(7))
  also have "\<dots> = sum_list (take (Suc i) (map Principal df0))"
    using cumulative_columns_Inr(7)[OF cc i0] cumulative_columns_Inr(5)[OF cc] by simp
  also have "\<dots> = sum_list (map Principal (take (Suc i) ?df))"
    by (simp add: df inflation_column_keeps(5) take_map[symmetric] del: take_map)
  finally have cp: "Cumulative_Principal (?df ! i) = sum_list (map Principal (take (Suc i) ?df))" .
  from ci cp show ?thesis by simp
qed

theorem cumulative_sum_consistency_witness:
  "run example_inputs = Inr (example_outputs True)
   \<and> 1 < length (amort_df (example_outputs True))
   \<and> Cumulative_Interest (amort_df (example_outputs True) ! 1)
       = sum_list (map Interest (take (Suc 1) (amort_df (example_outputs True))))
   \<and> Cumulative_Principal (amort_df (example_outputs True) ! 1)
       = sum_list (map Principal (take (Suc 1) (amort_df (example_outputs True))))
   \<and> Cumulative_Principal (amort_df (example_outputs True) ! 1) = 2000/3"
proof -
  have len: "1 < length (amort_df (example_outputs True))"
    by (simp add: example_outputs_def example_df_def)
  have val: "Cumulative_Principal (amort_df (example_outputs True) ! 1) = 2000/3"
    by (simp add: example_outputs_def example_df_def)
  from cumulative_sum_consistency[OF run_example_inputs len] run_example_inputs len val
  show ?thesis by simp
qed

text \<open>
  C5. With a zero monthly rate, a balance of 1200, twelve months and a payment of 100, the
  loop appends exactly twelve rows, each with \<open>Principal = 100\<close> and \<open>Interest = 0\<close>, and
  the last \<open>Balance\<close> is 0; the level payment for these terms is 100. For a zero rate the
  body sets the interest to 0 and the principal to \<open>min balance payment\<close>, whatever the
  balance and the payment are.
\<close>

theorem zero_rate_straight_line:
  "schedule_rows (build_schedule 1200 0 12 100) =
     [\<lparr>Month = 1, Payment = 100, Principal = 100, Interest = 0, Balance = 1100\<rparr>,
      \<lparr>Month = 2, Payment = 100, Principal = 100, Interest = 0, Balance = 1000\<rparr>,
      \<lparr>Month = 3, Payment = 100, Principal = 100, Interest = 0, Balance = 900\<rparr>,
      \<lparr>Month = 4, Payment = 100, Principal = 100, Interest = 0, Balance = 800\<rparr>,
      \<lparr>Month = 5, Payment = 100, Principal = 100, Interest = 0, Balance = 700\<rparr>,
      \<lparr>Month = 6, Payment = 100, Principal = 100, Interest = 0, Balance = 600\<rparr>,
      \<lparr>Month = 7, Payment = 100, Principal = 100, Interest = 0, Balance = 500\<rparr>,
      \<lparr>Month = 8, Payment = 100, Principal = 100, Interest = 0, Balance = 400\<rparr>,
      \<lparr>Month = 9, Payment = 100, Principal = 100, Interest = 0, Balance = 300\<rparr>,
      \<lparr>Month = 10, Payment = 100, Principal = 100, Interest = 0, Balance = 200\<rparr>,
      \<lparr>Month = 11, Payment = 100, Principal = 100, Interest = 0, Balance = 100\<rparr>,
      \<lparr>Month = 12, Payment = 100, Principal = 100, Interest = 0, Balance = 0\<rparr>]
   \<and> length (schedule_rows (build_schedule 1200 0 12 100)) = 12
   \<and> monthly_payment 1200 0 12 = Inr 100
   \<and> Interest (last (schedule_rows (loop_body 0 Pe m st))) = 0
   \<and> Principal (last (schedule_rows (loop_body 0 Pe m st))) = min (balance st) Pe"
  by (simp add: build_schedule_def py_range_def initial_state_def loop_body_def Let_def
      upto_rec1 monthly_payment_def)

text \<open>
  C6. The loop appends at most \<open>n\<close> rows. Every row but the last has a balance above
  0.0001, so no row follows a balance at or below that threshold, and a schedule of \<open>n\<close>
  rows has a balance above 0.0001 in each of its first \<open>n - 1\<close> rows; a schedule shorter
  than \<open>n\<close> ends on a balance at or below 0.0001. The recorded balance of the last row is
  the running balance the loop tested.
\<close>

theorem early_termination:
  "length (schedule_rows (build_schedule P0 r n Pe)) \<le> nat n
   \<and> (\<forall>i. Suc i < length (schedule_rows (build_schedule P0 r n Pe))
          \<longrightarrow> 0.0001 < Balance (schedule_rows (build_schedule P0 r n Pe) ! i))
   \<and> (length (schedule_rows (build_schedule P0 r n Pe)) < nat n
          \<longrightarrow> schedule_rows (build_schedule P0 r n Pe) \<noteq> []
              \<and> Balance (last (schedule_rows (build_schedule P0 r n Pe))) \<le> 0.0001)
   \<and> (0 < n \<longrightarrow> balance (build_schedule P0 r n Pe)
                    = Balance (last (schedule_rows (build_schedule P0 r n Pe))))"
proof (intro conjI allI impI)
  show "length (schedule_rows (build_schedule P0 r n Pe)) \<le> nat n"
    unfolding build_schedule_rows using length_loop_rows[of r Pe "[1..n]" P0] by simp
next
  fix i assume "Suc i < length (schedule_rows (build_schedule P0 r n Pe))"
  then show "0.0001 < Balance (schedule_rows (build_schedule P0 r n Pe) ! i)"
    unfolding build_schedule_rows by (rule nonlast_above_eps)
next
  assume lt: "length (schedule_rows (build_schedule P0 r n Pe)) < nat n"
  then have "[1..n] \<noteq> []" by auto
  then show "schedule_rows (build_schedule P0 r n Pe) \<noteq> []"
    unfolding build_schedule_rows by (rule loop_rows_nonempty)
  from lt have "length (loop_rows r Pe [1..n] P0) < length [1..n]"
    unfolding build_schedule_rows by simp
  then show "Balance (last (schedule_rows (build_schedule P0 r n Pe))) \<le> 0.0001"
    unfolding build_schedule_rows by (rule early_stop_below_eps)
next
  assume "0 < n"
  then have "[1..n] \<noteq> []" by simp
  from final_balance_last_row[OF this, of r Pe P0]
  show "balance (build_schedule P0 r n Pe) = Balance (last (schedule_rows (build_schedule P0 r n Pe)))"
    unfolding build_schedule_rows by (simp add: build_schedule_def py_range_def)
qed

theorem early_termination_witness:
  "length (schedule_rows (build_schedule 1200 0 12 600)) \<le> nat 12
   \<and> Suc 0 < length (schedule_rows (build_schedule 1200 0 12 600))
   \<and> 0.0001 < Balance (schedule_rows (build_schedule 1200 0 12 600) ! 0)
   \<and> length (schedule_rows (build_schedule 1200 0 12 600)) < nat 12
   \<and> Balance (last (schedule_rows (build_schedule 1200 0 12 600))) \<le> 0.0001
   \<and> (0::int) < 12
   \<and> balance (build_schedule 1200 0 12 600)
       = Balance (last (schedule_rows (build_schedule 1200 0 12 600)))"
proof -
  have len: "Suc 0 < length (schedule_rows (build_schedule 1200 0 12 600))"
    and lt: "length (schedule_rows (build_schedule 1200 0 12 600)) < nat 12"
    by (simp_all add: half_payment_schedule)
  from early_termination[of 1200 0 12 600] len lt show ?thesis by simp
qed




text \<open>
  C8. Switching the rounding checkbox changes the display view (and the table that shows
  it) and nothing else: the data frame, the totals, the payments and the CSV export are
  the same. The display view is the data frame rounded to two decimals when rounding is
  on, and the data frame itself otherwise; rounding keeps the month, yields a multiple of
  1/100 and moves a value by at most 1/200.
\<close>

theorem rounding_presentation_only:
  "run (inp\<lparr>rounding := b\<rparr>) =
     map_sum id (\<lambda>out. out\<lparr>display_df := display_view b (amort_df out),
                           table := (if show_amort inp then Some (display_view b (amort_df out))
                                     else None)\<rparr>) (run inp)
   \<and> (run inp = Inr out \<longrightarrow>
        display_df out = (if rounding inp then map (round_row 2) (amort_df out) else amort_df out))
   \<and> Month (round_row 2 d) = Month d
   \<and> (\<exists>k::int. np_round 2 x = of_int k / 100) \<and> \<bar>np_round 2 x - x\<bar> \<le> 1/200"
proof (intro conjI impI)
  show "run (inp\<lparr>rounding := b\<rparr>) =
     map_sum id (\<lambda>out. out\<lparr>display_df := display_view b (amort_df out),
                           table := (if show_amort inp then Some (display_view b (amort_df out))
                                     else None)\<rparr>) (run inp)"
    by (simp add: run_def calculations_def effective_principal_def Let_def split: sum.splits)
  show "display_df out = (if rounding inp then map (round_row 2) (amort_df out) else amort_df out)"
    if "run inp = Inr out"
    using that by (rule run_Inr) (simp add: display_view_def round_df_def)
  show "Month (round_row 2 d) = Month d" by (simp add: round_row_def)
  show "\<exists>k::int. np_round 2 x = of_int k / 100" by (rule np_round_two)
  show "\<bar>np_round 2 x - x\<bar> \<le> 1/200" by (rule np_round_two)
qed

theorem rounding_presentation_only_witness:
  "run example_inputs = Inr (example_outputs True)
   \<and> run (example_inputs\<lparr>rounding := False\<rparr>) = Inr (example_outputs False)
   \<and> amort_df (example_outputs False) = amort_df (example_outputs True)
   \<and> display_df (example_outputs True) = map (round_row 2) (amort_df (example_outputs True))
   \<and> display_df (example_outputs False) = amort_df (example_outputs True)
   \<and> display_df (example_outputs True) \<noteq> amort_df (example_outputs True)"
proof -
  have r: "rounding example_inputs" by (simp add: example_inputs_def)
  have ne: "display_df (example_outputs True) \<noteq> amort_df (example_outputs True)"
    by (simp add: example_outputs_def example_df_def example_display_def)
  from rounding_presentation_only[where inp = example_inputs and b = False and out = "example_outputs True"]
    run_example_inputs r ne run_example[of False]
  show ?thesis by (simp add: example_outputs_def)
qed

text \<open>
  C9. The effective principal is at most 0 exactly when the deposit is at least the
  principal. Then the script stops with the message about the deposit and produces no
  output at all. With a positive effective principal the script never stops that way, and
  for inputs in the widgets' ranges it ends without an error on a data frame with at
  least one row.
\<close>

theorem deposit_covers_loan:
  "(effective_principal inp \<le> 0 \<longleftrightarrow> principal inp \<le> deposit inp)
   \<and> (effective_principal inp \<le> 0 \<longrightarrow> run inp = Inl (Stopped deposit_covers_msg))
   \<and> (0 < effective_principal inp \<longrightarrow> (\<forall>msg. run inp \<noteq> Inl (Stopped msg)))
   \<and> (0 < effective_principal inp \<and> widget_ranges inp
        \<longrightarrow> (\<exists>out. run inp = Inr out \<and> amort_df out \<noteq> []))"
proof (intro conjI impI allI)
  show "effective_principal inp \<le> 0 \<longleftrightarrow> principal inp \<le> deposit inp"
    by (auto simp: effective_principal_def max_def)
  show "run inp = Inl (Stopped deposit_covers_msg)" if "effective_principal inp \<le> 0"
    using that by (simp add: run_def)
  show "run inp \<noteq> Inl (Stopped msg)" if "0 < effective_principal inp" for msg
    using that by (rule run_never_other_stop)
  show "\<exists>out. run inp = Inr out \<and> amort_df out \<noteq> []"
    if "0 < effective_principal inp \<and> widget_ranges inp"
    using that run_succeeds by blast
qed

theorem deposit_covers_loan_witness:
  "effective_principal (example_inputs\<lparr>deposit := 1000\<rparr>) \<le> 0
   \<and> principal (example_inputs\<lparr>deposit := 1000\<rparr>) \<le> deposit (example_inputs\<lparr>deposit := 1000\<rparr>)
   \<and> run (example_inputs\<lparr>deposit := 1000\<rparr>) = Inl (Stopped deposit_covers_msg)
   \<and> 0 < effective_principal example_inputs \<and> widget_ranges example_inputs
   \<and> run example_inputs \<noteq> Inl (Stopped deposit_covers_msg)
   \<and> run example_inputs = Inr (example_outputs True)"
proof -
  have a: "effective_principal (example_inputs\<lparr>deposit := 1000\<rparr>) \<le> 0"
    by (simp add: effective_principal_def example_inputs_def)
  have b: "0 < effective_principal example_inputs" "widget_ranges example_inputs"
    by (simp_all add: effective_principal_def example_inputs_def widget_ranges_def)
  from deposit_covers_loan[of "example_inputs\<lparr>deposit := 1000\<rparr>"] a
  have "principal (example_inputs\<lparr>deposit := 1000\<rparr>) \<le> deposit (example_inputs\<lparr>deposit := 1000\<rparr>)
        \<and> run (example_inputs\<lparr>deposit := 1000\<rparr>) = Inl (Stopped deposit_covers_msg)"
    by blast
  moreover from deposit_covers_loan[of example_inputs] b
  have "run example_inputs \<noteq> Inl (Stopped deposit_covers_msg)" by blast
  ultimately show ?thesis using a b run_example_inputs by simp
qed

text \<open>
  C10. The value of \<^verbatim>\<open>periods_per_year\<close> is never read by the calculations. Two
  compounding choices that give the same monthly rate give the same run, and
  \<open>Annually\<close> always runs as \<open>Monthly\<close> does. The loop ranges over the months
  \<open>1..12 * duration_years\<close> whatever the compounding is; the data frame has at most that
  many rows, numbered from 1, and its balances are those of the loop run for
  \<open>12 * duration_years\<close> months.
\<close>

theorem compounding_only_through_rate:
  "calculations inp ppy = calculations inp ppy'
   \<and> (monthly_rate c (annual_rate (interest_rate inp))
        = monthly_rate (compounding inp) (annual_rate (interest_rate inp))
       \<longrightarrow> run (inp\<lparr>compounding := c\<rparr>) = run inp)
   \<and> run (inp\<lparr>compounding := Annually\<rparr>) = run (inp\<lparr>compounding := Monthly\<rparr>)
   \<and> py_range 1 (total_months (duration_years inp) + 1) = [1..duration_years inp * 12]
   \<and> (run inp = Inr out \<longrightarrow>
        length (amort_df out) \<le> nat (duration_years inp * 12)
        \<and> map Month (amort_df out) = [1..int (length (amort_df out))]
        \<and> map Balance (amort_df out) =
            map Balance (schedule_rows (build_schedule (effective_principal inp)
              (monthly_rate (compounding inp) (annual_rate (interest_rate inp)))
              (duration_years inp * 12) (monthly_payment_with_extra out))))"
proof (intro conjI impI)
  show "calculations inp ppy = calculations inp ppy'"
    by (simp add: calculations_def)
  show "run (inp\<lparr>compounding := c\<rparr>) = run inp"
    if "monthly_rate c (annual_rate (interest_rate inp))
        = monthly_rate (compounding inp) (annual_rate (interest_rate inp))"
    using that by (simp add: run_def calculations_def effective_principal_def Let_def split: sum.splits)
  show "run (inp\<lparr>compounding := Annually\<rparr>) = run (inp\<lparr>compounding := Monthly\<rparr>)"
    by (simp add: run_def calculations_def effective_principal_def Let_def split: sum.splits)
  show "py_range 1 (total_months (duration_years inp) + 1) = [1..duration_years inp * 12]"
    by (simp add: py_range_def total_months_def)
next
  assume run: "run inp = Inr out"
  let ?r = "monthly_rate (compounding inp) (annual_rate (interest_rate inp))"
  let ?n = "duration_years inp * 12"
  let ?rows = "schedule_rows (build_schedule (effective_principal inp) ?r ?n (monthly_payment_with_extra out))"
  from run obtain df0 where
    cc: "cumulative_columns (schedule_rows (build_schedule (effective_principal inp) ?r
           (total_months (duration_years inp)) (base_monthly_payment out + extra_payment inp))) = Inr df0"
    and df: "amort_df out = inflation_column (inflation_adj inp) (inflation_rate inp) df0"
    and pe: "monthly_payment_with_extra out = base_monthly_payment out + extra_payment inp"
    by (rule run_Inr)
  from cc have cc': "cumulative_columns ?rows = Inr df0" by (simp add: pe total_months_def)
  have len: "length (amort_df out) = length ?rows"
    by (simp add: df inflation_column_keeps(1) cumulative_columns_Inr(1)[OF cc'])
  have le: "length ?rows \<le> nat ?n"
    unfolding build_schedule_rows using length_loop_rows[of ?r _ "[1..?n]"] by simp
  show "length (amort_df out) \<le> nat ?n" using len le by simp
  have "map Month (amort_df out) = map Month ?rows"
    by (simp add: df inflation_column_keeps(2) cumulative_columns_Inr(2)[OF cc'])
  also have "\<dots> = take (length ?rows) [1..?n]"
    unfolding build_schedule_rows by (rule Month_loop_rows)
  also have "\<dots> = [1..int (length ?rows)]" using le by (rule take_months)
  finally show "map Month (amort_df out) = [1..int (length (amort_df out))]" using len by simp
  show "map Balance (amort_df out) = map Balance ?rows"
    by (simp add: df inflation_column_keeps(3) cumulative_columns_Inr(3)[OF cc'])
qed

theorem compounding_only_through_rate_witness:
  "monthly_rate Quarterly (annual_rate (interest_rate example_inputs))
     = monthly_rate (compounding example_inputs) (annual_rate (interest_rate example_inputs))
   \<and> run (example_inputs\<lparr>compounding := Quarterly\<rparr>) = Inr (example_outputs True)
   \<and> run example_inputs = Inr (example_outputs True)
   \<and> length (amort_df (example_outputs True)) \<le> nat (duration_years example_inputs * 12)
   \<and> map Month (amort_df (example_outputs True)) = [1..int (length (amort_df (example_outputs True)))]"
proof -
  have eq: "monthly_rate Quarterly (annual_rate (interest_rate example_inputs))
     = monthly_rate (compounding example_inputs) (annual_rate (interest_rate example_inputs))"
    by (simp add: example_inputs_def monthly_rate_zero)
  from compounding_only_through_rate[where inp = example_inputs and c = Quarterly
      and out = "example_outputs True"] eq run_example_inputs
  show ?thesis by simp
qed

end
